theory Spec2Isabelle
  imports Main
begin

section \<open>The standard \<open>logging\<close> library, as far as \<open>py_utils\<close> drives it\<close>

text \<open>
  \<open>py_utils/logger.py\<close> is a thin layer over Python's \<open>logging\<close> module, so the
  embedding starts with the part of that module the layer calls: severity levels, handler
  objects, the level check of a logger and the dispatch of a record to the handlers.

  A written record is kept as the pair of its level number and its message text; it stands
  for the line \<open><asctime> - <levelname> - <message>\<close> that both formatters of the source
  produce. Text is ASCII.
\<close>

type_synonym path = string
type_synonym log_record = "int \<times> string"

abbreviation (input) NOTSET :: int where "NOTSET \<equiv> 0"
abbreviation (input) DEBUG :: int where "DEBUG \<equiv> 10"
abbreviation (input) INFO :: int where "INFO \<equiv> 20"
abbreviation (input) WARNING :: int where "WARNING \<equiv> 30"
abbreviation (input) ERROR :: int where "ERROR \<equiv> 40"
abbreviation (input) CRITICAL :: int where "CRITICAL \<equiv> 50"

datatype handler_kind = StreamHandler | FileHandler path

text \<open>
  A handler is an object: \<open>hid\<close> is its identity (\<open>in\<close> and \<open>remove\<close> on the handler list
  compare by identity), \<open>hlevel\<close> its own threshold.
\<close>

record handler =
  hid :: nat
  kind :: handler_kind
  hlevel :: int

text \<open>
  The process state. \<open>logging.getLogger(__name__)\<close> returns the one logger object that
  the library registers under the name of the module \<open>py_utils.logger\<close>; \<open>lg_level\<close> and
  \<open>lg_handlers\<close> are the attributes of that object. Its ancestors (the root logger) are
  left as the library creates them: level \<open>WARNING\<close>, no handlers. \<open>stderr\<close> is what the
  stream handlers have written, \<open>fs\<close> the content of the files, \<open>openable\<close> tells the paths
  that \<open>open\<close> accepts for writing (the others are directories, lie in a missing directory
  or are not permitted). A path stands for the file it resolves to.
\<close>

record world =
  lg_level :: int
  lg_handlers :: "handler list"
  next_hid :: nat
  stderr :: "log_record list"
  fs :: "path \<Rightarrow> log_record list option"
  openable :: "path \<Rightarrow> bool"

datatype error = ValueError | TypeError | OSError

datatype pyval = PyInt int | PyStr string | PyOther

definition isFileHandler :: "handler \<Rightarrow> bool" where
  "isFileHandler h = (case kind h of FileHandler p \<Rightarrow> True | StreamHandler \<Rightarrow> False)"

definition isStreamHandler :: "handler \<Rightarrow> bool" where
  "isStreamHandler h = (case kind h of FileHandler p \<Rightarrow> False | StreamHandler \<Rightarrow> True)"

text \<open>
  The names of the module \<open>logging\<close> that are their own upper-case form, with their values
  (every other name of the module has a lower-case letter, so no upper-cased key reaches
  it). \<open>getattr(logging, name, default)\<close> looks a name up among them.
\<close>

definition logging_namespace :: "(string \<times> pyval) list" where
  "logging_namespace =
    [(''CRITICAL'', PyInt 50), (''FATAL'', PyInt 50), (''ERROR'', PyInt 40),
     (''WARNING'', PyInt 30), (''WARN'', PyInt 30), (''INFO'', PyInt 20),
     (''DEBUG'', PyInt 10), (''NOTSET'', PyInt 0),
     (''BASIC_FORMAT'', PyStr ''%(levelname)s:%(name)s:%(message)s''),
     (''_STYLES'', PyOther)]"

definition getattr_logging :: "string \<Rightarrow> pyval \<Rightarrow> pyval" where
  "getattr_logging name dflt =
    (case map_of logging_namespace name of Some v \<Rightarrow> v | None \<Rightarrow> dflt)"

definition nameToLevel :: "(string \<times> int) list" where
  "nameToLevel =
    [(''CRITICAL'', 50), (''FATAL'', 50), (''ERROR'', 40), (''WARN'', 30),
     (''WARNING'', 30), (''INFO'', 20), (''DEBUG'', 10), (''NOTSET'', 0)]"

text \<open>\<open>logging._checkLevel\<close>: an integer is a level, a string must name one.\<close>

definition checkLevel :: "pyval \<Rightarrow> error + int" where
  "checkLevel v =
    (case v of
       PyInt i \<Rightarrow> Inr i
     | PyStr s \<Rightarrow> (case map_of nameToLevel s of None \<Rightarrow> Inl ValueError | Some i \<Rightarrow> Inr i)
     | PyOther \<Rightarrow> Inl TypeError)"

text \<open>\<open>str.upper\<close> on ASCII text.\<close>

definition upper_char :: "char \<Rightarrow> char" where
  "upper_char c =
    (case map_of (zip ''abcdefghijklmnopqrstuvwxyz'' ''ABCDEFGHIJKLMNOPQRSTUVWXYZ'') c of
       Some u \<Rightarrow> u
     | None \<Rightarrow> c)"

definition upper :: "string \<Rightarrow> string" where
  "upper s = map upper_char s"

definition setLevel :: "int \<Rightarrow> world \<Rightarrow> world" where
  "setLevel lv w = w\<lparr>lg_level := lv\<rparr>"

text \<open>
  \<open>Logger.getEffectiveLevel\<close>: a logger whose level is \<open>NOTSET\<close> takes the level of its
  ancestors, here the root logger's \<open>WARNING\<close>.
\<close>

definition getEffectiveLevel :: "world \<Rightarrow> int" where
  "getEffectiveLevel w = (if lg_level w \<noteq> NOTSET then lg_level w else WARNING)"

text \<open>\<open>Logger.isEnabledFor\<close>, with \<open>logging.disable\<close> at its default 0.\<close>

definition isEnabledFor :: "int \<Rightarrow> world \<Rightarrow> bool" where
  "isEnabledFor lv w = (if 0 \<ge> lv then False else lv \<ge> getEffectiveLevel w)"

text \<open>A handler object is created with a fresh identity and level \<open>NOTSET\<close>.\<close>

definition new_handler :: "handler_kind \<Rightarrow> world \<Rightarrow> handler \<times> world" where
  "new_handler k w =
    (\<lparr>hid = next_hid w, kind = k, hlevel = NOTSET\<rparr>, w\<lparr>next_hid := Suc (next_hid w)\<rparr>)"

text \<open>
  \<open>open(p, "w")\<close> leaves \<open>p\<close> empty; \<open>open(p, "a")\<close> creates \<open>p\<close> when it is missing; both
  raise \<open>OSError\<close> for a path that cannot be opened.
\<close>

definition open_w :: "path \<Rightarrow> world \<Rightarrow> error + world" where
  "open_w p w = (if openable w p then Inr (w\<lparr>fs := (fs w)(p \<mapsto> [])\<rparr>) else Inl OSError)"

definition open_a :: "path \<Rightarrow> world \<Rightarrow> error + world" where
  "open_a p w =
    (if openable w p then
       (case fs w p of None \<Rightarrow> Inr (w\<lparr>fs := (fs w)(p \<mapsto> [])\<rparr>) | Some c \<Rightarrow> Inr w)
     else Inl OSError)"

text \<open>\<open>logging.FileHandler(p)\<close> opens its stream at once, in append mode.\<close>

definition new_FileHandler :: "path \<Rightarrow> world \<Rightarrow> error + handler \<times> world" where
  "new_FileHandler p w =
    (case open_a p w of Inl e \<Rightarrow> Inl e | Inr w1 \<Rightarrow> Inr (new_handler (FileHandler p) w1))"

definition addHandler :: "handler \<Rightarrow> world \<Rightarrow> world" where
  "addHandler h w =
    (if hid h \<in> set (map hid (lg_handlers w)) then w
     else w\<lparr>lg_handlers := lg_handlers w @ [h]\<rparr>)"

definition removeHandler :: "handler \<Rightarrow> world \<Rightarrow> world" where
  "removeHandler h w = w\<lparr>lg_handlers := filter (\<lambda>x. hid x \<noteq> hid h) (lg_handlers w)\<rparr>"

text \<open>A handler writes the record at the end of its stream.\<close>

definition emit :: "log_record \<Rightarrow> handler \<Rightarrow> world \<Rightarrow> world" where
  "emit r h w =
    (case kind h of
       StreamHandler \<Rightarrow> w\<lparr>stderr := stderr w @ [r]\<rparr>
     | FileHandler p \<Rightarrow>
         w\<lparr>fs := (fs w)(p \<mapsto> (case fs w p of None \<Rightarrow> [] | Some c \<Rightarrow> c) @ [r])\<rparr>)"

text \<open>
  \<open>Logger.callHandlers\<close>: every handler whose own level is at most the record's gets the
  record; with no handler at all, the library's last-resort handler writes records from
  \<open>WARNING\<close> on to the standard error stream.
\<close>

fun handle_all :: "log_record \<Rightarrow> handler list \<Rightarrow> world \<Rightarrow> world" where
  "handle_all r [] w = w"
| "handle_all r (h # hs) w =
    handle_all r hs (if fst r \<ge> hlevel h then emit r h w else w)"

definition callHandlers :: "log_record \<Rightarrow> world \<Rightarrow> world" where
  "callHandlers r w =
    (if lg_handlers w = [] then
       (if fst r \<ge> WARNING then w\<lparr>stderr := stderr w @ [r]\<rparr> else w)
     else handle_all r (lg_handlers w) w)"

text \<open>\<open>Logger.log\<close> of the library, behind \<open>debug\<close>, \<open>info\<close>, \<open>warning\<close>, \<open>error\<close>, \<open>critical\<close>.\<close>

definition log :: "int \<Rightarrow> string \<Rightarrow> world \<Rightarrow> world" where
  "log lv msg w = (if isEnabledFor lv w then callHandlers (lv, msg) w else w)"

section \<open>The class \<open>Logger\<close> of \<open>py_utils/logger.py\<close>\<close>

text \<open>
  An instance holds \<open>self.logger\<close>, always the shared object of the world, and
  \<open>self.log_file\<close>. A method that can raise returns \<open>Inr\<close> with the instance and the state
  when it completes, and \<open>Inl\<close> with the exception and the instance and state it leaves
  behind when it raises.
\<close>

record Logger =
  log_file :: "path option"

type_synonym outcome = "(error \<times> Logger \<times> world) + Logger \<times> world"

definition set_log_file :: "Logger \<Rightarrow> path \<Rightarrow> world \<Rightarrow> outcome" where
  "set_log_file self p w =
    (let self' = self\<lparr>log_file := Some p\<rparr>
     in case open_w p w of
          Inl e \<Rightarrow> Inl (e, self', w)
        | Inr w1 \<Rightarrow>
           (if \<not> list_ex isFileHandler (lg_handlers w1) then
              (case new_FileHandler p w1 of
                 Inl e \<Rightarrow> Inl (e, self', w1)
               | Inr (fh, w2) \<Rightarrow> Inr (self', addHandler (fh\<lparr>hlevel := DEBUG\<rparr>) w2))
            else Inr (self', w1)))"

definition clear_log_file :: "Logger \<Rightarrow> world \<Rightarrow> Logger \<times> world" where
  "clear_log_file self w =
    (self\<lparr>log_file := None\<rparr>,
     foldl (\<lambda>w' h. if isFileHandler h then removeHandler h w' else w') w (lg_handlers w))"

definition Logger_init :: "path option \<Rightarrow> int \<Rightarrow> world \<Rightarrow> outcome" where
  "Logger_init lf level w =
    (let w1 = setLevel level w;
         self = \<lparr>log_file = lf\<rparr>;
         (h, w2) = new_handler StreamHandler w1;
         h' = h\<lparr>hlevel := level\<rparr>;
         w3 = addHandler h' w2
     in case lf of Some p \<Rightarrow> set_log_file self p w3 | None \<Rightarrow> Inr (self, w3))"

definition set_params :: "Logger \<Rightarrow> string \<Rightarrow> path option \<Rightarrow> world \<Rightarrow> outcome" where
  "set_params self log_level lf w =
    (case checkLevel (getattr_logging (upper log_level) (PyInt INFO)) of
       Inl e \<Rightarrow> Inl (e, self, w)
     | Inr v \<Rightarrow>
        (let w1 = setLevel v w;
             w2 = w1\<lparr>lg_handlers := map (\<lambda>h. h\<lparr>hlevel := v\<rparr>) (lg_handlers w1)\<rparr>
         in case lf of
              Some p \<Rightarrow> set_log_file self p w2
            | None \<Rightarrow> Inr (clear_log_file self w2)))"

text \<open>The instance and the state after a call, whether it completed or raised.\<close>

definition after :: "outcome \<Rightarrow> Logger \<times> world" where
  "after r = (case r of Inl (e, s, w) \<Rightarrow> (s, w) | Inr x \<Rightarrow> x)"

definition debug :: "Logger \<Rightarrow> string \<Rightarrow> world \<Rightarrow> world" where
  "debug self msg w = log DEBUG msg w"

definition info :: "Logger \<Rightarrow> string \<Rightarrow> world \<Rightarrow> world" where
  "info self msg w = log INFO msg w"

definition warning :: "Logger \<Rightarrow> string \<Rightarrow> world \<Rightarrow> world" where
  "warning self msg w = log WARNING msg w"

definition error :: "Logger \<Rightarrow> string \<Rightarrow> world \<Rightarrow> world" where
  "error self msg w = log ERROR msg w"

definition critical :: "Logger \<Rightarrow> string \<Rightarrow> world \<Rightarrow> world" where
  "critical self msg w = log CRITICAL msg w"

definition separator :: string where
  "separator = ''========================================''"

definition processing_log :: "Logger \<Rightarrow> string \<Rightarrow> world \<Rightarrow> world" where
  "processing_log self msg w =
    (let outmsg = CHR 0x0A # separator @ CHR 0x0A # msg @ CHR 0x0A # separator
     in log INFO outmsg w)"

text \<open>
  A process before the module is imported, and after: importing \<open>py_utils.logger\<close> runs
  \<open>logger = Logger()\<close>. In \<open>fresh\<close> every path can be opened.
\<close>

definition fresh :: world where
  "fresh = \<lparr>lg_level = NOTSET, lg_handlers = [], next_hid = 0, stderr = [], fs = Map.empty,
             openable = (\<lambda>p. True)\<rparr>"

definition imported :: "Logger \<times> world" where
  "imported = after (Logger_init None INFO fresh)"

section \<open>The decorator \<open>log_function\<close>\<close>

text \<open>
  A Python function object: \<open>__module__\<close>, \<open>__name__\<close> and what a call does. A call either
  raises (\<open>Inl\<close>) or returns (\<open>Inr\<close>) and leaves a new process state.
\<close>

record ('a, 'b, 'x) pyfunc =
  fmodule :: string
  fname :: string
  fcall :: "'a \<Rightarrow> world \<Rightarrow> ('x + 'b) \<times> world"

text \<open>
  The inner function \<open>wrapper\<close>. Its first argument is the module-level instance \<open>logger\<close>,
  which the source reads as a global.
\<close>

definition wrapper ::
  "Logger \<Rightarrow> ('a, 'b, 'x) pyfunc \<Rightarrow> Logger option \<Rightarrow> 'a \<Rightarrow> world \<Rightarrow> ('x + 'b) \<times> world" where
  "wrapper logger func logger_instance args w =
    (let logger_to_use = (case logger_instance of Some l \<Rightarrow> l | None \<Rightarrow> logger);
         module_name = fmodule func;
         w1 = debug logger_to_use (module_name @ ''.'' @ fname func @ '' BEGIN'') w;
         (result, w2) = fcall func args w1
     in case result of
          Inl e \<Rightarrow> (Inl e, w2)
        | Inr v \<Rightarrow> (Inr v, debug logger_to_use (module_name @ ''.'' @ fname func @ '' END'') w2))"

text \<open>\<open>functools.wraps\<close> gives the wrapper the module and the name of the function.\<close>

definition wrapped ::
  "Logger \<Rightarrow> ('a, 'b, 'x) pyfunc \<Rightarrow> Logger option \<Rightarrow> ('a, 'b, 'x) pyfunc" where
  "wrapped logger func logger_instance = func\<lparr>fcall := wrapper logger func logger_instance\<rparr>"

text \<open>
  \<open>log_function\<close> itself: without a function it returns a decorator (\<open>Inl\<close>), with one it
  returns the wrapped function (\<open>Inr\<close>).
\<close>

definition log_function ::
  "Logger \<Rightarrow> ('a, 'b, 'x) pyfunc option \<Rightarrow> Logger option \<Rightarrow>
     (('a, 'b, 'x) pyfunc \<Rightarrow> ('a, 'b, 'x) pyfunc) + ('a, 'b, 'x) pyfunc" where
  "log_function logger func logger_instance =
    (case func of
       None \<Rightarrow> Inl (\<lambda>f. wrapped logger f logger_instance)
     | Some f \<Rightarrow> Inr (wrapped logger f logger_instance))"

section \<open>The context manager \<open>Timer\<close> of \<open>py_utils/timer.py\<close>\<close>

text \<open>
  The timer reads a clock, drives a \<open>tqdm\<close> progress bar and reports through a logger or
  \<open>print\<close>. Clock readings are floating-point numbers in the source; here they are values of
  a type \<open>'f\<close>, and the subtraction and the format \<open>4.2f\<close> on them are arguments \<open>fsub\<close> and
  \<open>fmt\<close> of the functions that use them. A logger is a reference of a type \<open>'l\<close>; the state
  keeps the messages its method \<open>info\<close> was called with.
\<close>

record bar =
  bar_total :: int
  bar_desc :: string
  bar_n :: int
  bar_closed :: nat

record ('f, 'l) env =
  now :: 'f
  stdout :: string
  info_calls :: "('l \<times> string) list"
  bars :: "nat \<Rightarrow> bar"
  next_bar :: nat

datatype 'x exc = AttributeError | Raised 'x

record ('f, 'l) Timer =
  t_name :: string
  t_logger :: "'l option"
  t_total :: "int option"
  t_progress_bar :: "nat option"
  t_start :: "'f option"
  t_end :: "'f option"
  t_elapsed :: "'f option"

definition tqdm :: "int \<Rightarrow> string \<Rightarrow> ('f, 'l) env \<Rightarrow> nat \<times> ('f, 'l) env" where
  "tqdm tot d e =
    (next_bar e,
     e\<lparr>bars := (bars e)(next_bar e := \<lparr>bar_total = tot, bar_desc = d, bar_n = 0, bar_closed = 0\<rparr>),
       next_bar := Suc (next_bar e)\<rparr>)"

definition tqdm_update :: "nat \<Rightarrow> int \<Rightarrow> ('f, 'l) env \<Rightarrow> ('f, 'l) env" where
  "tqdm_update b k e = e\<lparr>bars := (bars e)(b := (bars e b)\<lparr>bar_n := bar_n (bars e b) + k\<rparr>)\<rparr>"

definition tqdm_close :: "nat \<Rightarrow> ('f, 'l) env \<Rightarrow> ('f, 'l) env" where
  "tqdm_close b e =
    e\<lparr>bars := (bars e)(b := (bars e b)\<lparr>bar_closed := Suc (bar_closed (bars e b))\<rparr>)\<rparr>"

definition print :: "string \<Rightarrow> ('f, 'l) env \<Rightarrow> ('f, 'l) env" where
  "print s e = e\<lparr>stdout := stdout e @ s @ [CHR 0x0A]\<rparr>"

definition logger_info :: "'l \<Rightarrow> string \<Rightarrow> ('f, 'l) env \<Rightarrow> ('f, 'l) env" where
  "logger_info l s e = e\<lparr>info_calls := info_calls e @ [(l, s)]\<rparr>"

definition Timer_init :: "string \<Rightarrow> int option \<Rightarrow> 'l option \<Rightarrow> ('f, 'l) Timer" where
  "Timer_init nm tot lg =
    \<lparr>t_name = nm, t_logger = lg, t_total = tot, t_progress_bar = None,
     t_start = None, t_end = None, t_elapsed = None\<rparr>"

definition set_logger :: "('f, 'l) Timer \<Rightarrow> 'l \<Rightarrow> ('f, 'l) Timer" where
  "set_logger self lg = self\<lparr>t_logger := Some lg\<rparr>"

definition Timer_enter :: "('f, 'l) Timer \<Rightarrow> ('f, 'l) env \<Rightarrow> ('f, 'l) Timer \<times> ('f, 'l) env" where
  "Timer_enter self e =
    (let self1 = self\<lparr>t_start := Some (now e)\<rparr>
     in case t_total self1 of
          Some tot \<Rightarrow>
            (let (b, e1) = tqdm tot (t_name self1) e
             in (self1\<lparr>t_progress_bar := Some b\<rparr>, e1))
        | None \<Rightarrow> (self1, e))"

text \<open>The text both branches of \<open>__exit__\<close> format.\<close>

definition report :: "('f \<Rightarrow> string) \<Rightarrow> string \<Rightarrow> 'f \<Rightarrow> string" where
  "report fmt nm el = nm @ '' took '' @ fmt el @ '' seconds.'' @ [CHR 0x0A]"

text \<open>
  \<open>__exit__\<close> returns the truth value of its result (it returns \<open>None\<close>, which is false), or
  raises \<open>AttributeError\<close> when \<open>self.start\<close> was never set.
\<close>

definition Timer_exit ::
  "('f \<Rightarrow> 'f \<Rightarrow> 'f) \<Rightarrow> ('f \<Rightarrow> string) \<Rightarrow> ('f, 'l) Timer \<Rightarrow> 'x exc option \<Rightarrow> ('f, 'l) env \<Rightarrow>
     ('x exc + bool) \<times> ('f, 'l) Timer \<times> ('f, 'l) env" where
  "Timer_exit fsub fmt self exc_val e =
    (let self1 = self\<lparr>t_end := Some (now e)\<rparr>
     in case t_start self1 of
          None \<Rightarrow> (Inl AttributeError, self1, e)
        | Some s \<Rightarrow>
           (let el = fsub (now e) s;
                self2 = self1\<lparr>t_elapsed := Some el\<rparr>;
                e1 = (case t_progress_bar self2 of Some b \<Rightarrow> tqdm_close b e | None \<Rightarrow> e);
                e2 = (case t_logger self2 of
                        Some l \<Rightarrow> logger_info l (report fmt (t_name self2) el) e1
                      | None \<Rightarrow> print (report fmt (t_name self2) el) e1)
            in (Inr False, self2, e2)))"

definition update :: "('f, 'l) Timer \<Rightarrow> int \<Rightarrow> ('f, 'l) env \<Rightarrow> ('f, 'l) env" where
  "update self k e = (case t_progress_bar self of Some b \<Rightarrow> tqdm_update b k e | None \<Rightarrow> e)"

text \<open>
  The statement \<open>with Timer(...) as timer: body\<close>. The block gets the entered timer and the
  state; it raises or completes. \<open>__exit__\<close> runs on both paths; an exception of the block
  is raised again unless \<open>__exit__\<close> returned a true value; an exception of \<open>__exit__\<close>
  replaces it.
\<close>

definition with_Timer ::
  "('f \<Rightarrow> 'f \<Rightarrow> 'f) \<Rightarrow> ('f \<Rightarrow> string) \<Rightarrow> ('f, 'l) Timer \<Rightarrow>
     (('f, 'l) Timer \<Rightarrow> ('f, 'l) env \<Rightarrow> ('x exc + unit) \<times> ('f, 'l) env) \<Rightarrow> ('f, 'l) env \<Rightarrow>
     ('x exc + unit) \<times> ('f, 'l) Timer \<times> ('f, 'l) env" where
  "with_Timer fsub fmt mgr body e =
    (let (self1, e1) = Timer_enter mgr e;
         (r, e2) = body self1 e1
     in case r of
          Inl x \<Rightarrow>
            (case Timer_exit fsub fmt self1 (Some x) e2 of
               (Inl x', self2, e3) \<Rightarrow> (Inl x', self2, e3)
             | (Inr suppress, self2, e3) \<Rightarrow> (if suppress then Inr () else Inl x, self2, e3))
        | Inr u \<Rightarrow>
            (case Timer_exit fsub fmt self1 None e2 of
               (Inl x', self2, e3) \<Rightarrow> (Inl x', self2, e3)
             | (Inr suppress, self2, e3) \<Rightarrow> (Inr (), self2, e3)))"

section \<open>Notions used to state the properties\<close>

text \<open>The level names that the docstring of \<open>set_params\<close> lists.\<close>

definition level_names :: "string list" where
  "level_names = [''INFO'', ''DEBUG'', ''WARNING'', ''ERROR'', ''CRITICAL'']"

definition level_after :: "outcome \<Rightarrow> error + int" where
  "level_after r = (case r of Inl (e, s, w) \<Rightarrow> Inl e | Inr (s, w) \<Rightarrow> Inr (lg_level w))"


text \<open>
  The two thresholds a record of level \<open>lv\<close> passes on its way to the sink of handler \<open>h\<close>:
  the logger's and the handler's own.
\<close>

definition delivers :: "int \<Rightarrow> world \<Rightarrow> handler \<Rightarrow> bool" where
  "delivers lv w h = (isEnabledFor lv w \<and> lv \<ge> hlevel h)"

text \<open>A process that constructs \<open>Logger\<close> instances one after the other.\<close>

fun construct :: "(path option \<times> int) list \<Rightarrow> world \<Rightarrow> world" where
  "construct [] w = w"
| "construct ((lf, level) # cs) w = construct cs (snd (after (Logger_init lf level w)))"

text \<open>
  A process that has imported the module, in a file system where \<open>ok\<close> tells the paths that
  can be opened, and has then made the constructor calls \<open>cs\<close>; and what a call at level
  \<open>lv\<close> with message \<open>m\<close> then adds to the console.
\<close>

definition after_import :: "(path \<Rightarrow> bool) \<Rightarrow> (path option \<times> int) list \<Rightarrow> world" where
  "after_import ok cs = construct cs ((snd imported)\<lparr>openable := ok\<rparr>)"

definition console_copies ::
  "(path \<Rightarrow> bool) \<Rightarrow> int \<Rightarrow> string \<Rightarrow> (path option \<times> int) list \<Rightarrow> log_record list" where
  "console_copies ok lv m cs =
    (if isEnabledFor lv (after_import ok cs)
     then replicate (length (filter (\<lambda>l. l \<le> lv) (INFO # map snd cs))) (lv, m)
     else [])"

text \<open>Identities of handlers in the list are older than the next one to be given out.\<close>

definition handlers_fresh :: "world \<Rightarrow> bool" where
  "handlers_fresh w = (\<forall>h\<in>set (lg_handlers w). hid h < next_hid w)"

text \<open>The lines of a text, as \<open>str.split("\n")\<close> gives them.\<close>

fun split_lines :: "string \<Rightarrow> string list" where
  "split_lines [] = [[]]"
| "split_lines (c # cs) =
    (if c = CHR 0x0A then [] # split_lines cs
     else (case split_lines cs of [] \<Rightarrow> [[c]] | l # ls \<Rightarrow> (c # l) # ls))"

text \<open>Two functions to decorate, and a process whose logger passes every level.\<close>

definition add :: "(int \<times> int, int, string) pyfunc" where
  "add = \<lparr>fmodule = ''__main__'', fname = ''add'', fcall = (\<lambda>(a, b) w. (Inr (a + b), w))\<rparr>"

definition failing :: "(unit, unit, string) pyfunc" where
  "failing = \<lparr>fmodule = ''__main__'', fname = ''failing'',
              fcall = (\<lambda>u w. (Inl ''boom'', log WARNING ''about to fail'' w))\<rparr>"

definition debug_world :: world where
  "debug_world = snd (after (Logger_init None DEBUG fresh))"

text \<open>
  A clock that counts hundredths of a second, with the format \<open>4.2f\<close> on its readings, and
  two blocks to time: one takes 1.5 seconds, advances the bar and raises, the other takes
  1.5 seconds and completes.
\<close>

fun show_nat :: "nat \<Rightarrow> string" where
  "show_nat k =
    (if k < 10 then [''0123456789'' ! k]
     else show_nat (k div 10) @ [''0123456789'' ! (k mod 10)])"

definition fmt_hundredths :: "int \<Rightarrow> string" where
  "fmt_hundredths c =
     (if c < 0 then ''-'' else []) @ show_nat (nat \<bar>c\<bar> div 100) @ ''.'' @
     [''0123456789'' ! (nat \<bar>c\<bar> div 10 mod 10), ''0123456789'' ! (nat \<bar>c\<bar> mod 10)]"

definition no_bars :: "nat \<Rightarrow> bar" where
  "no_bars = (\<lambda>b. \<lparr>bar_total = 0, bar_desc = [], bar_n = 0, bar_closed = 0\<rparr>)"

definition start_env :: "(int, string) env" where
  "start_env = \<lparr>now = 1000, stdout = [], info_calls = [], bars = no_bars, next_bar = 0\<rparr>"

definition raising_block ::
  "(int, string) Timer \<Rightarrow> (int, string) env \<Rightarrow> (string exc + unit) \<times> (int, string) env" where
  "raising_block timer e = (Inl (Raised ''boom''), update timer 1 (e\<lparr>now := now e + 150\<rparr>))"

definition quiet_block ::
  "(int, string) Timer \<Rightarrow> (int, string) env \<Rightarrow> (string exc + unit) \<times> (int, string) env" where
  "quiet_block timer e = (Inr (), e\<lparr>now := now e + 150\<rparr>)"

text \<open>The two steps of \<open>__exit__\<close> after the clock reading.\<close>

definition emitted :: "'l option \<Rightarrow> string \<Rightarrow> ('f, 'l) env \<Rightarrow> ('f, 'l) env" where
  "emitted lg s e = (case lg of Some l \<Rightarrow> logger_info l s e | None \<Rightarrow> print s e)"

definition closed_bar :: "nat option \<Rightarrow> ('f, 'l) env \<Rightarrow> ('f, 'l) env" where
  "closed_bar pb e = (case pb of Some b \<Rightarrow> tqdm_close b e | None \<Rightarrow> e)"

section \<open>Properties of the logger\<close>

lemma imported_eq:
  "imported = (\<lparr>log_file = None\<rparr>,
     \<lparr>lg_level = INFO, lg_handlers = [\<lparr>hid = 0, kind = StreamHandler, hlevel = INFO\<rparr>],
      next_hid = 1, stderr = [], fs = Map.empty, openable = (\<lambda>p. True)\<rparr>)"
  by (simp add: imported_def after_def Logger_init_def fresh_def setLevel_def new_handler_def
      addHandler_def Let_def)

subsection \<open>Level names\<close>

lemma lg_level_fold_remove:
  "lg_level (foldl (\<lambda>w' h. if isFileHandler h then removeHandler h w' else w') w hs) = lg_level w"
  by (induction hs arbitrary: w) (simp_all add: removeHandler_def)

lemma lg_level_clear_log_file: "lg_level (snd (clear_log_file self w)) = lg_level w"
  by (simp add: clear_log_file_def lg_level_fold_remove)

lemma lg_level_set_log_file: "lg_level (snd (after (set_log_file self p w))) = lg_level w"
  by (simp add: set_log_file_def after_def Let_def new_FileHandler_def new_handler_def
      open_a_def open_w_def addHandler_def split: option.splits)

lemma set_log_file_openable:
  "openable w p \<Longrightarrow> \<exists>x. set_log_file self p w = Inr x"
  by (simp add: set_log_file_def Let_def new_FileHandler_def new_handler_def
      open_a_def open_w_def split: option.splits)

lemma getattr_logging_default:
  "map_of logging_namespace k = None \<Longrightarrow> getattr_logging k d = d"
  by (simp add: getattr_logging_def)

text \<open>
  Where the fallback works: when the upper-cased level name is not a name of the module
  \<open>logging\<close>, \<open>set_params\<close> does what it does with \<open>"INFO"\<close>; the level of the logger is
  \<open>INFO\<close> afterwards, and the call completes unless the file cannot be opened.
\<close>

lemma set_params_unknown_name:
  assumes "map_of logging_namespace (upper s) = None"
  shows "set_params self s lf w = set_params self ''INFO'' lf w"
    and "lg_level (snd (after (set_params self s lf w))) = INFO"
    and "(case lf of None \<Rightarrow> True | Some p \<Rightarrow> openable w p)
           \<Longrightarrow> \<exists>x. set_params self s lf w = Inr x"
proof -
  let ?w = "(setLevel INFO w)\<lparr>lg_handlers :=
              map (\<lambda>h. h\<lparr>hlevel := INFO\<rparr>) (lg_handlers (setLevel INFO w))\<rparr>"
  have a: "getattr_logging (upper s) (PyInt INFO) = PyInt INFO"
    using assms by (rule getattr_logging_default)
  have b: "getattr_logging (upper ''INFO'') (PyInt INFO) = PyInt INFO"
    by (simp add: getattr_logging_def logging_namespace_def upper_def upper_char_def)
  show "set_params self s lf w = set_params self ''INFO'' lf w"
    unfolding set_params_def a b ..
  have lv: "lg_level ?w = INFO"
    by (simp add: setLevel_def)
  have sp: "set_params self s lf w =
              (case lf of Some p \<Rightarrow> set_log_file self p ?w | None \<Rightarrow> Inr (clear_log_file self ?w))"
    unfolding set_params_def a by (simp add: checkLevel_def Let_def)
  show "lg_level (snd (after (set_params self s lf w))) = INFO"
  proof (cases lf)
    case None
    then show ?thesis
      using lv lg_level_clear_log_file [of self ?w] unfolding sp by (simp add: after_def)
  next
    case (Some p)
    then show ?thesis
      using lv lg_level_set_log_file [of self p ?w] unfolding sp by simp
  qed
  show "\<exists>x. set_params self s lf w = Inr x"
    if "case lf of None \<Rightarrow> True | Some p \<Rightarrow> openable w p"
  proof (cases lf)
    case None
    then show ?thesis unfolding sp by simp
  next
    case (Some p)
    with that have "openable ?w p" by (simp add: setLevel_def)
    from set_log_file_openable [OF this, of self] Some show ?thesis unfolding sp by simp
  qed
qed

lemma set_params_verbose:
  "level_after (set_params \<lparr>log_file = None\<rparr> ''verbose'' None debug_world) = Inr INFO"
  by (simp add: debug_world_def after_def Logger_init_def fresh_def new_handler_def
      addHandler_def level_after_def set_params_def upper_def upper_char_def
      getattr_logging_def logging_namespace_def checkLevel_def setLevel_def clear_log_file_def
      Let_def isFileHandler_def)

text \<open>
  The names \<open>WARN\<close>, \<open>FATAL\<close> and \<open>NOTSET\<close> are level names of the library beside the five of
  the docstring, and \<open>set_params\<close> sets the level they name.
\<close>

lemma set_params_library_names:
  "level_after (set_params self ''warn'' None w) = Inr WARNING"
  "level_after (set_params self ''fatal'' None w) = Inr CRITICAL"
  "level_after (set_params self ''notset'' None w) = Inr NOTSET"
  by (simp_all add: level_after_def set_params_def upper_def upper_char_def
      getattr_logging_def logging_namespace_def checkLevel_def setLevel_def
      lg_level_fold_remove clear_log_file_def Let_def)

text \<open>
  C9 at the string \<open>"basic_format"\<close>, which names no severity level: its upper-case form is
  a name of the module \<open>logging\<close> whose value is a format string, so the lookup does not fall
  back to \<open>INFO\<close>, \<open>setLevel\<close> raises \<open>ValueError\<close>, and logger and instance stay as they
  were; started at level \<open>DEBUG\<close>, the level is still \<open>DEBUG\<close>.
\<close>

theorem set_params_basic_format_raises:
  "set_params self ''basic_format'' lf w = Inl (ValueError, self, w)
   \<and> lg_level (snd (after (set_params \<lparr>log_file = None\<rparr> ''basic_format'' None debug_world)))
       = DEBUG"
  by (simp add: set_params_def upper_def upper_char_def getattr_logging_def
      logging_namespace_def checkLevel_def nameToLevel_def after_def debug_world_def
      Logger_init_def fresh_def setLevel_def new_handler_def addHandler_def Let_def)

subsection \<open>Which records reach which sink\<close>

lemma stderr_emit: "stderr (emit r h w) = stderr w @ (if isStreamHandler h then [r] else [])"
  by (simp add: emit_def isStreamHandler_def split: handler_kind.splits)


lemma stderr_handle_all:
  "stderr (handle_all r hs w) =
     stderr w @ concat (map (\<lambda>h. if isStreamHandler h \<and> fst r \<ge> hlevel h then [r] else []) hs)"
  by (induction hs arbitrary: w) (simp_all add: stderr_emit)


lemma concat_map_Nil: "concat (map (\<lambda>h. []) hs) = []"
  by (induction hs) simp_all

lemma stderr_log:
  assumes "lg_handlers w \<noteq> []"
  shows "stderr (log lv m w) =
           stderr w @
           concat (map (\<lambda>h. if isStreamHandler h \<and> delivers lv w h then [(lv, m)] else [])
                       (lg_handlers w))"
proof (cases "isEnabledFor lv w")
  case True
  then show ?thesis using assms
    by (simp add: log_def callHandlers_def delivers_def stderr_handle_all)
next
  case False
  then show ?thesis
    by (simp add: log_def delivers_def concat_map_Nil)
qed





subsection \<open>The file sink and the shared logger\<close>

text \<open>
  What does hold of the file sink: \<open>clear_log_file\<close> leaves no file handler,
  \<open>set_log_file\<close> leaves exactly one, and the first attachment of a path truncates the
  file and attaches a handler for it.
\<close>

lemma filter_fold_remove:
  "lg_handlers (foldl (\<lambda>w' h. if isFileHandler h then removeHandler h w' else w') w hs)
     = filter (\<lambda>x. hid x \<notin> hid ` set (filter isFileHandler hs)) (lg_handlers w)"
proof (induction hs arbitrary: w)
  case Nil
  then show ?case by simp
next
  case (Cons h hs)
  show ?case
    by (simp add: Cons.IH removeHandler_def)
qed

lemma clear_log_file_no_file_handler:
  "filter isFileHandler (lg_handlers (snd (clear_log_file self w))) = []"
  by (auto simp add: clear_log_file_def filter_fold_remove filter_empty_conv)

lemma set_log_file_one_file_handler:
  assumes "length (filter isFileHandler (lg_handlers w)) \<le> 1" and "handlers_fresh w"
    and "set_log_file self p w = Inr (self', w')"
  shows "length (filter isFileHandler (lg_handlers w')) = 1"
  using assms
  by (auto simp add: set_log_file_def open_w_def Let_def new_FileHandler_def new_handler_def
      open_a_def addHandler_def handlers_fresh_def isFileHandler_def list_ex_iff
      filter_empty_conv le_Suc_eq
      split: option.splits if_splits)

lemma first_attachment:
  assumes "\<not> list_ex isFileHandler (lg_handlers w)" and "handlers_fresh w"
    and "set_log_file self p w = Inr (self', w')"
  shows "filter isFileHandler (lg_handlers w')
           = [\<lparr>hid = next_hid w, kind = FileHandler p, hlevel = DEBUG\<rparr>]"
    and "fs w' p = Some []"
  using assms
  by (auto simp add: set_log_file_def open_w_def Let_def new_FileHandler_def new_handler_def
      open_a_def addHandler_def handlers_fresh_def isFileHandler_def list_ex_iff
      filter_empty_conv
      split: option.splits if_splits)

text \<open>A path that cannot be opened: \<open>set_log_file\<close> raises, and the instance names it already.\<close>

lemma set_log_file_unopenable:
  "\<not> openable w p \<Longrightarrow> set_log_file self p w = Inl (OSError, self\<lparr>log_file := Some p\<rparr>, w)"
  by (simp add: set_log_file_def open_w_def)

text \<open>
  C1 at a concrete run: \<open>set_params("INFO", "a.log")\<close>, then \<open>set_params("INFO", "b.log")\<close>,
  then \<open>info("x")\<close>. The instance names \<open>b.log\<close>, the only file handler still writes to
  \<open>a.log\<close>, the message lands in \<open>a.log\<close> and \<open>b.log\<close> stays empty.
\<close>

theorem set_log_file_keeps_old_sink:
  "(case set_params (fst imported) ''INFO'' (Some ''a.log'') (snd imported) of
      Inl e \<Rightarrow> None
    | Inr (s, w) \<Rightarrow>
       (case set_params s ''INFO'' (Some ''b.log'') w of
          Inl e \<Rightarrow> None
        | Inr (s', w') \<Rightarrow>
            Some (log_file s', map kind (lg_handlers w'),
                  fs (info s' ''x'' w') ''a.log'', fs (info s' ''x'' w') ''b.log'')))
   = Some (Some ''b.log'', [StreamHandler, FileHandler ''a.log''], Some [(INFO, ''x'')], Some [])"
  by (simp add: imported_eq set_params_def upper_def upper_char_def getattr_logging_def
      logging_namespace_def checkLevel_def setLevel_def set_log_file_def open_w_def open_a_def
      new_FileHandler_def new_handler_def addHandler_def isFileHandler_def Let_def
      info_def log_def isEnabledFor_def getEffectiveLevel_def callHandlers_def emit_def)

text \<open>
  C2 at a concrete run: with the module's instance \<open>A\<close> at \<open>INFO\<close>, a second instance \<open>B\<close> is
  constructed and \<open>B.set_params("DEBUG")\<close> is called. Before, \<open>A.debug("x")\<close> writes nothing;
  after, the level and both console handlers are at \<open>DEBUG\<close> and \<open>A.debug("x")\<close> is written,
  twice.
\<close>

theorem set_params_reaches_other_instance:
  "(case Logger_init None INFO (snd imported) of
      Inl e \<Rightarrow> None
    | Inr (b, w) \<Rightarrow>
       (case set_params b ''DEBUG'' None w of
          Inl e \<Rightarrow> None
        | Inr (b', w') \<Rightarrow>
            Some (lg_level (snd imported), map hlevel (lg_handlers (snd imported)),
                  stderr (debug (fst imported) ''x'' (snd imported)),
                  lg_level w', map hlevel (lg_handlers w'),
                  stderr (debug (fst imported) ''x'' w'))))
   = Some (INFO, [INFO], [], DEBUG, [DEBUG, DEBUG], [(DEBUG, ''x''), (DEBUG, ''x'')])"
  by (simp add: imported_eq Logger_init_def set_params_def upper_def upper_char_def
      getattr_logging_def logging_namespace_def checkLevel_def setLevel_def clear_log_file_def
      removeHandler_def new_handler_def addHandler_def isFileHandler_def Let_def
      debug_def log_def isEnabledFor_def getEffectiveLevel_def callHandlers_def emit_def)

subsection \<open>Console handlers accumulate\<close>

lemma fresh_Logger_init:
  assumes "handlers_fresh w"
  shows "handlers_fresh (snd (after (Logger_init lf lv w)))"
    and "filter isStreamHandler (lg_handlers (snd (after (Logger_init lf lv w))))
          = filter isStreamHandler (lg_handlers w) @
            [\<lparr>hid = next_hid w, kind = StreamHandler, hlevel = lv\<rparr>]"
    and "stderr (snd (after (Logger_init lf lv w))) = stderr w"
    and "lg_handlers (snd (after (Logger_init lf lv w))) \<noteq> []"
    and "lg_level (snd (after (Logger_init lf lv w))) = lv"
  using assms
  by (auto simp add: handlers_fresh_def Logger_init_def after_def setLevel_def new_handler_def
      addHandler_def set_log_file_def open_w_def open_a_def new_FileHandler_def Let_def
      isStreamHandler_def isFileHandler_def less_Suc_eq list_ex_iff
      split: option.splits)

lemma construct_handlers:
  "handlers_fresh w \<Longrightarrow>
     map hlevel (filter isStreamHandler (lg_handlers (construct cs w)))
       = map hlevel (filter isStreamHandler (lg_handlers w)) @ map snd cs
     \<and> stderr (construct cs w) = stderr w
     \<and> (lg_handlers w \<noteq> [] \<longrightarrow> lg_handlers (construct cs w) \<noteq> [])"
proof (induction cs arbitrary: w)
  case Nil
  then show ?case by simp
next
  case (Cons c cs)
  obtain lf lv where c: "c = (lf, lv)" by (cases c)
  note f = fresh_Logger_init [OF Cons.prems, of lf lv]
  from Cons.IH [OF f(1)] f(2-) show ?case
    by (simp add: c)
qed

lemma count_delivered:
  "concat (map (\<lambda>h. if isStreamHandler h \<and> P (hlevel h) then [r] else []) hs)
     = replicate (length (filter P (map hlevel (filter isStreamHandler hs)))) r"
  by (induction hs) simp_all

lemma handlers_fresh_imported: "handlers_fresh ((snd imported)\<lparr>openable := ok\<rparr>)"
  by (simp add: handlers_fresh_def imported_eq)

lemma stderr_log_after_import:
  "stderr (log lv m (after_import ok cs)) = console_copies ok lv m cs"
proof -
  let ?w0 = "(snd imported)\<lparr>openable := ok\<rparr>"
  let ?w = "after_import ok cs"
  from construct_handlers [OF handlers_fresh_imported [of ok], where cs = cs]
  have h: "map hlevel (filter isStreamHandler (lg_handlers ?w)) = INFO # map snd cs"
    and e: "stderr ?w = []" and n: "lg_handlers ?w \<noteq> []"
    by (simp_all add: after_import_def imported_eq isStreamHandler_def)
  have "stderr (log lv m ?w) =
     concat (map (\<lambda>h. if isStreamHandler h \<and> delivers lv ?w h then [(lv, m)] else [])
                 (lg_handlers ?w))"
    using stderr_log [OF n, of lv m] e by simp
  also have "\<dots> = (if isEnabledFor lv ?w
      then concat (map (\<lambda>h. if isStreamHandler h \<and> (\<lambda>l. l \<le> lv) (hlevel h)
                              then [(lv, m)] else []) (lg_handlers ?w))
      else [])"
    by (simp add: delivers_def concat_map_Nil)
  also have "\<dots> = console_copies ok lv m cs"
    using count_delivered [of "\<lambda>l. l \<le> lv" "(lv, m)" "lg_handlers ?w"] h
    by (simp add: console_copies_def)
  finally show ?thesis .
qed

lemma console_handlers_after_import:
  "length (filter isStreamHandler (lg_handlers (after_import ok cs))) = Suc (length cs)"
proof -
  from construct_handlers [OF handlers_fresh_imported [of ok], where cs = cs]
  have "map hlevel (filter isStreamHandler (lg_handlers (after_import ok cs))) = INFO # map snd cs"
    by (simp add: after_import_def imported_eq isStreamHandler_def)
  then have "length (map hlevel (filter isStreamHandler (lg_handlers (after_import ok cs))))
               = length (INFO # map snd cs)"
    by (rule arg_cong)
  then show ?thesis by simp
qed

text \<open>
  C10, as the code has it: in a process that has imported the module and then made the
  constructor calls \<open>cs\<close> (each with its file and level, whether or not its file could be
  opened), the shared logger carries one console handler for the module's instance and one
  per call; and each of \<open>debug\<close>, \<open>info\<close>, \<open>warning\<close>, \<open>error\<close>, \<open>critical\<close>, on any instance,
  writes its message to the console once per console handler whose level (\<open>INFO\<close> for the
  module's instance, the constructor's level for the others) is at most the level of the
  call, when the logger lets the call pass, and not at all otherwise.
\<close>

theorem console_handlers_accumulate:
  "length (filter isStreamHandler (lg_handlers (after_import ok cs))) = Suc (length cs)
   \<and> stderr (debug self m (after_import ok cs)) = console_copies ok DEBUG m cs
   \<and> stderr (info self m (after_import ok cs)) = console_copies ok INFO m cs
   \<and> stderr (warning self m (after_import ok cs)) = console_copies ok WARNING m cs
   \<and> stderr (error self m (after_import ok cs)) = console_copies ok ERROR m cs
   \<and> stderr (critical self m (after_import ok cs)) = console_copies ok CRITICAL m cs"
  by (simp only: console_handlers_after_import stderr_log_after_import debug_def info_def
      warning_def error_def critical_def simp_thms)

text \<open>
  C10 as stated fails: after the import, \<open>Logger(level=WARNING)\<close> and \<open>Logger(level=INFO)\<close>
  there are three instances and three console handlers, the logger lets an \<open>info\<close> call
  pass, and the console gets the message twice, not three times.
\<close>

theorem three_instances_two_lines_counterexample:
  "map hlevel (lg_handlers (after_import (\<lambda>p. True) [(None, WARNING), (None, INFO)]))
     = [INFO, WARNING, INFO]
   \<and> stderr (info \<lparr>log_file = None\<rparr> ''m''
               (after_import (\<lambda>p. True) [(None, WARNING), (None, INFO)]))
     = [(INFO, ''m''), (INFO, ''m'')]"
  by (simp add: after_import_def imported_eq after_def Logger_init_def setLevel_def
      new_handler_def addHandler_def Let_def info_def log_def isEnabledFor_def
      getEffectiveLevel_def callHandlers_def emit_def)

subsection \<open>The section banner\<close>

lemma split_lines_line:
  "CHR 0x0A \<notin> set s \<Longrightarrow> split_lines (s @ CHR 0x0A # t) = s # split_lines t"
  by (induction s) auto

lemma split_lines_last: "CHR 0x0A \<notin> set s \<Longrightarrow> split_lines s = [s]"
  by (induction s) auto

lemma separator_eq: "separator = replicate 40 (CHR ''='')"
  by (simp add: separator_def eval_nat_numeral)

lemma separator_no_LF: "CHR 0x0A \<notin> set separator"
  by (simp add: separator_eq)

text \<open>
  C4, as the code has it: for a message without a line break, \<open>processing_log\<close> is one call
  at level \<open>INFO\<close> whose text is a line break (it ends the line of the record's prefix)
  followed by exactly three lines: the separator, the message, the separator; the separator
  is 40 characters \<open>=\<close>.
\<close>

theorem processing_log_banner:
  assumes "CHR 0x0A \<notin> set msg"
  shows "\<exists>outmsg. processing_log self msg w = log INFO outmsg w
           \<and> split_lines outmsg = [[], separator, msg, separator]
           \<and> separator = replicate 40 (CHR ''='')"
proof -
  let ?out = "CHR 0x0A # separator @ CHR 0x0A # msg @ CHR 0x0A # separator"
  have a: "processing_log self msg w = log INFO ?out w"
    by (simp add: processing_log_def)
  have "split_lines (separator @ CHR 0x0A # msg @ CHR 0x0A # separator)
          = separator # split_lines (msg @ CHR 0x0A # separator)"
    by (rule split_lines_line [OF separator_no_LF])
  also have "split_lines (msg @ CHR 0x0A # separator) = msg # split_lines separator"
    by (rule split_lines_line [OF assms])
  also have "split_lines separator = [separator]"
    by (rule split_lines_last [OF separator_no_LF])
  finally have b: "split_lines ?out = [[], separator, msg, separator]" by simp
  from a b separator_eq show ?thesis by blast
qed

theorem processing_log_banner_witness:
  "CHR 0x0A \<notin> set ''X'' \<and>
   (\<exists>outmsg. processing_log (fst imported) ''X'' (snd imported) = log INFO outmsg (snd imported)
           \<and> split_lines outmsg = [[], separator, ''X'', separator]
           \<and> separator = replicate 40 (CHR ''=''))"
  using processing_log_banner [of "''X''" "fst imported" "snd imported"] by simp

text \<open>
  C4 as stated fails: for the two-line message \<open>"a\nb"\<close> the record on the console has five
  lines, an empty one and four more, not three.
\<close>

theorem processing_log_lines_counterexample:
  "map (\<lambda>r. (fst r, split_lines (snd r)))
     (stderr (processing_log (fst imported) (CHR ''a'' # CHR 0x0A # ''b'') (snd imported)))
   = [(INFO, [[], separator, ''a'', ''b'', separator])]"
  by (simp add: imported_eq processing_log_def log_def isEnabledFor_def getEffectiveLevel_def
      callHandlers_def emit_def separator_def)

section \<open>Properties of the decorator\<close>

lemma debug_world_eq:
  "debug_world =
     \<lparr>lg_level = DEBUG, lg_handlers = [\<lparr>hid = 0, kind = StreamHandler, hlevel = DEBUG\<rparr>],
      next_hid = 1, stderr = [], fs = Map.empty, openable = (\<lambda>p. True)\<rparr>"
  by (simp add: debug_world_def after_def Logger_init_def fresh_def setLevel_def new_handler_def
      addHandler_def Let_def)

lemma log_debug_world:
  "0 < lv \<Longrightarrow> DEBUG \<le> lv \<Longrightarrow>
     log lv m (debug_world\<lparr>stderr := out\<rparr>) = debug_world\<lparr>stderr := out @ [(lv, m)]\<rparr>"
  by (simp add: debug_world_eq log_def isEnabledFor_def getEffectiveLevel_def callHandlers_def
      emit_def)

text \<open>
  C6: in both shapes, bare decoration and decoration with \<open>logger_instance\<close>, the decorator
  yields the wrapped function; when the function, called with the original arguments in the
  state that the \<open>debug\<close> call with \<open><module>.<name> BEGIN\<close> leaves, returns \<open>v\<close>, then the
  wrapped function returns \<open>v\<close>, after one more \<open>debug\<close> call with \<open><module>.<name> END\<close>.
\<close>

theorem log_function_brackets_call:
  assumes "fcall f args (log DEBUG (fmodule f @ ''.'' @ fname f @ '' BEGIN'') w) = (Inr v, w')"
  shows "log_function g (Some f) None = Inr (wrapped g f None)
       \<and> (\<exists>d. log_function g None (Some l) = Inl d \<and> d f = wrapped g f (Some l))
       \<and> fcall (wrapped g f li) args w
           = (Inr v, log DEBUG (fmodule f @ ''.'' @ fname f @ '' END'') w')"
  using assms by (simp add: log_function_def wrapped_def wrapper_def debug_def Let_def)

theorem log_function_brackets_call_witness:
  "fcall add (2, 3) (log DEBUG (fmodule add @ ''.'' @ fname add @ '' BEGIN'') debug_world)
     = (Inr 5, log DEBUG ''__main__.add BEGIN'' debug_world)
   \<and> map_prod id stderr (fcall (wrapped \<lparr>log_file = None\<rparr> add None) (2, 3) debug_world)
     = (Inr 5, [(DEBUG, ''__main__.add BEGIN''), (DEBUG, ''__main__.add END'')])"
proof -
  have h: "fcall add (2, 3) (log DEBUG (fmodule add @ ''.'' @ fname add @ '' BEGIN'') debug_world)
     = (Inr 5, log DEBUG ''__main__.add BEGIN'' debug_world)"
    by (simp add: add_def)
  have "log DEBUG ''__main__.add BEGIN'' debug_world
          = debug_world\<lparr>stderr := [(DEBUG, ''__main__.add BEGIN'')]\<rparr>"
    using log_debug_world [where lv = DEBUG and out = "[]" and m = "''__main__.add BEGIN''"]
    by (simp add: debug_world_eq)
  then show ?thesis
    using h log_function_brackets_call [OF h, of "\<lparr>log_file = None\<rparr>" "\<lparr>log_file = None\<rparr>" None]
      log_debug_world [where lv = DEBUG and out = "[(DEBUG, ''__main__.add BEGIN'')]"
                         and m = "''__main__.add END''"]
    by (simp add: add_def debug_world_eq)
qed

text \<open>
  C5: when the function, called in the state that the \<open>BEGIN\<close> call leaves, raises \<open>e\<close>, the
  wrapped function raises \<open>e\<close> and leaves the state as the function left it: nothing is logged
  after the function, so no \<open>END\<close>.
\<close>

theorem log_function_exception_skips_END:
  assumes "fcall f args (log DEBUG (fmodule f @ ''.'' @ fname f @ '' BEGIN'') w) = (Inl e, w')"
  shows "fcall (wrapped g f li) args w = (Inl e, w')"
  using assms by (simp add: wrapped_def wrapper_def debug_def Let_def)

theorem log_function_exception_witness:
  "fcall failing () (log DEBUG (fmodule failing @ ''.'' @ fname failing @ '' BEGIN'') debug_world)
     = (Inl ''boom'', log WARNING ''about to fail'' (log DEBUG ''__main__.failing BEGIN'' debug_world))
   \<and> map_prod id stderr (fcall (wrapped \<lparr>log_file = None\<rparr> failing None) () debug_world)
     = (Inl ''boom'', [(DEBUG, ''__main__.failing BEGIN''), (WARNING, ''about to fail'')])"
proof -
  have h: "fcall failing () (log DEBUG (fmodule failing @ ''.'' @ fname failing @ '' BEGIN'') debug_world)
     = (Inl ''boom'', log WARNING ''about to fail'' (log DEBUG ''__main__.failing BEGIN'' debug_world))"
    by (simp add: failing_def)
  have "log DEBUG ''__main__.failing BEGIN'' debug_world
          = debug_world\<lparr>stderr := [(DEBUG, ''__main__.failing BEGIN'')]\<rparr>"
    using log_debug_world [where lv = DEBUG and out = "[]" and m = "''__main__.failing BEGIN''"]
    by (simp add: debug_world_eq)
  then show ?thesis
    using h log_function_exception_skips_END [OF h, of "\<lparr>log_file = None\<rparr>" None]
      log_debug_world [where lv = WARNING and out = "[(DEBUG, ''__main__.failing BEGIN'')]"
                         and m = "''about to fail''"]
    by (simp add: failing_def debug_world_eq)
qed

section \<open>Properties of the timer\<close>

lemma Timer_enter_fields:
  assumes "Timer_enter mgr e0 = (t1, e1)"
  shows "t_start t1 = Some (now e0)" and "t_name t1 = t_name mgr" and "t_logger t1 = t_logger mgr"
    and "t_progress_bar t1 =
          (case t_total mgr of Some k \<Rightarrow> Some (next_bar e0) | None \<Rightarrow> t_progress_bar mgr)"
  using assms
  by (auto simp add: Timer_enter_def Let_def tqdm_def split: option.splits)

lemma Timer_exit_started:
  assumes "t_start t1 = Some s"
  shows "Timer_exit fsub fmt t1 x e2 =
          (Inr False, t1\<lparr>t_end := Some (now e2), t_elapsed := Some (fsub (now e2) s)\<rparr>,
           emitted (t_logger t1) (report fmt (t_name t1) (fsub (now e2) s))
             (closed_bar (t_progress_bar t1) e2))"
  using assms
  by (simp add: Timer_exit_def Let_def emitted_def closed_bar_def split: option.splits)

lemma with_Timer_result:
  assumes en: "Timer_enter mgr e0 = (t1, e1)"
      and bd: "body t1 e1 = (r :: 'x exc + unit, e2)"
  shows "with_Timer fsub fmt mgr body e0 =
          (r, t1\<lparr>t_end := Some (now e2), t_elapsed := Some (fsub (now e2) (now e0))\<rparr>,
           emitted (t_logger mgr) (report fmt (t_name mgr) (fsub (now e2) (now e0)))
             (closed_bar (t_progress_bar t1) e2))"
proof (cases r)
  case (Inl x)
  show ?thesis
    using en bd Inl Timer_enter_fields(2,3) [OF en]
      Timer_exit_started [OF Timer_enter_fields(1) [OF en], of fsub fmt "Some x" e2]
    by (simp add: with_Timer_def)
next
  case (Inr u)
  show ?thesis
    using en bd Inr Timer_enter_fields(2,3) [OF en]
      Timer_exit_started [OF Timer_enter_fields(1) [OF en], of fsub fmt "None :: 'x exc option" e2]
    by (simp add: with_Timer_def)
qed

text \<open>
  C3: whatever the block does, raise or complete, the statement ends as the block ended
  (an exception goes on unchanged, \<open>__exit__\<close> neither fails nor suppresses it); the report is
  emitted, through the logger's \<open>info\<close> when the timer has one and through \<open>print\<close> otherwise;
  and the progress bar, which exists exactly when a total was given, is closed once more than
  it was when the block ended.
\<close>

theorem timer_exit_on_every_path:
  assumes en: "Timer_enter mgr e0 = (t1, e1)"
      and bd: "body t1 e1 = (r, e2)"
  shows "\<exists>t3 e3. with_Timer fsub fmt mgr body e0 = (r, t3, e3)
       \<and> (case t_logger mgr of
            Some l \<Rightarrow>
              info_calls e3 = info_calls e2 @ [(l, report fmt (t_name mgr) (fsub (now e2) (now e0)))]
              \<and> stdout e3 = stdout e2
          | None \<Rightarrow>
              stdout e3 = stdout e2 @ report fmt (t_name mgr) (fsub (now e2) (now e0)) @ [CHR 0x0A]
              \<and> info_calls e3 = info_calls e2)
       \<and> t_progress_bar t1 =
           (case t_total mgr of Some k \<Rightarrow> Some (next_bar e0) | None \<Rightarrow> t_progress_bar mgr)
       \<and> (case t_progress_bar t1 of
            Some b \<Rightarrow>
              bars e3 = (bars e2)(b := (bars e2 b)\<lparr>bar_closed := Suc (bar_closed (bars e2 b))\<rparr>)
          | None \<Rightarrow> bars e3 = bars e2)"
proof -
  let ?e3 = "emitted (t_logger mgr) (report fmt (t_name mgr) (fsub (now e2) (now e0)))
               (closed_bar (t_progress_bar t1) e2)"
  have a: "case t_logger mgr of
            Some l \<Rightarrow>
              info_calls ?e3 = info_calls e2 @ [(l, report fmt (t_name mgr) (fsub (now e2) (now e0)))]
              \<and> stdout ?e3 = stdout e2
          | None \<Rightarrow>
              stdout ?e3 = stdout e2 @ report fmt (t_name mgr) (fsub (now e2) (now e0)) @ [CHR 0x0A]
              \<and> info_calls ?e3 = info_calls e2"
    by (cases "t_logger mgr"; cases "t_progress_bar t1")
       (simp_all add: emitted_def closed_bar_def logger_info_def print_def tqdm_close_def)
  have b: "case t_progress_bar t1 of
            Some b \<Rightarrow>
              bars ?e3 = (bars e2)(b := (bars e2 b)\<lparr>bar_closed := Suc (bar_closed (bars e2 b))\<rparr>)
          | None \<Rightarrow> bars ?e3 = bars e2"
    by (cases "t_logger mgr"; cases "t_progress_bar t1")
       (simp_all add: emitted_def closed_bar_def logger_info_def print_def tqdm_close_def)
  from with_Timer_result [where body = body and fsub = fsub and fmt = fmt, OF en bd]
    a Timer_enter_fields(4) [OF en] b
  show ?thesis by blast
qed

theorem timer_exit_on_every_path_witness:
  "Timer_enter (Timer_init ''job'' (Some 3) None) start_env
     = (\<lparr>t_name = ''job'', t_logger = None, t_total = Some 3, t_progress_bar = Some 0,
         t_start = Some 1000, t_end = None, t_elapsed = None\<rparr>,
        start_env\<lparr>bars := no_bars(0 := \<lparr>bar_total = 3, bar_desc = ''job'', bar_n = 0, bar_closed = 0\<rparr>),
                  next_bar := 1\<rparr>)
   \<and> (case with_Timer (-) fmt_hundredths (Timer_init ''job'' (Some 3) None) raising_block start_env of
        (r, t3, e3) \<Rightarrow> (r, stdout e3, bars e3 0))
      = (Inl (Raised ''boom''), ''job took 1.50 seconds.'' @ [CHR 0x0A, CHR 0x0A],
         \<lparr>bar_total = 3, bar_desc = ''job'', bar_n = 1, bar_closed = 1\<rparr>)"
proof -
  let ?t1 = "\<lparr>t_name = ''job'', t_logger = None :: string option, t_total = Some 3,
              t_progress_bar = Some 0, t_start = Some (1000 :: int), t_end = None,
              t_elapsed = None\<rparr>"
  let ?e1 = "start_env\<lparr>bars := no_bars(0 := \<lparr>bar_total = 3, bar_desc = ''job'', bar_n = 0, bar_closed = 0\<rparr>),
                  next_bar := 1\<rparr>"
  have en: "Timer_enter (Timer_init ''job'' (Some 3) None) start_env = (?t1, ?e1)"
    by (simp add: Timer_enter_def Timer_init_def start_env_def tqdm_def)
  have bd: "raising_block ?t1 ?e1
              = (Inl (Raised ''boom''), update ?t1 1 (?e1\<lparr>now := now ?e1 + 150\<rparr>))"
    by (simp add: raising_block_def)
  show ?thesis
    using en timer_exit_on_every_path
                [where body = raising_block and fsub = "(-)" and fmt = fmt_hundredths, OF en bd]
    by (auto simp add: Timer_init_def start_env_def update_def tqdm_update_def report_def
        fmt_hundredths_def no_bars_def)
qed

text \<open>
  C7, as the code has it: on exit the timer records start, end and their difference, and
  emits the text \<open><name> took <elapsed in format 4.2f> seconds.\<close> followed by a line break:
  as the message of one \<open>info\<close> call when the timer has a logger, through \<open>print\<close>
  otherwise, which adds a second line break.
\<close>

theorem timer_report_text:
  assumes en: "Timer_enter mgr e0 = (t1, e1)"
      and bd: "body t1 e1 = (r, e2)"
  shows "\<exists>t3 e3. with_Timer fsub fmt mgr body e0 = (r, t3, e3)
       \<and> t_start t3 = Some (now e0) \<and> t_end t3 = Some (now e2)
       \<and> t_elapsed t3 = Some (fsub (now e2) (now e0))
       \<and> (case t_logger mgr of
            Some l \<Rightarrow>
              info_calls e3 = info_calls e2 @
                [(l, t_name mgr @ '' took '' @ fmt (fsub (now e2) (now e0)) @ '' seconds.'' @
                     [CHR 0x0A])]
              \<and> stdout e3 = stdout e2
          | None \<Rightarrow>
              stdout e3 = stdout e2 @
                t_name mgr @ '' took '' @ fmt (fsub (now e2) (now e0)) @ '' seconds.'' @
                [CHR 0x0A, CHR 0x0A]
              \<and> info_calls e3 = info_calls e2)"
  unfolding with_Timer_result [where body = body and fsub = fsub and fmt = fmt, OF en bd]
  using Timer_enter_fields(1) [OF en]
  by (cases "t_logger mgr"; cases "t_progress_bar t1")
     (simp_all add: emitted_def closed_bar_def logger_info_def print_def tqdm_close_def report_def)

theorem timer_report_text_witness:
  "Timer_enter (Timer_init ''job'' None (Some ''app'')) start_env
     = (\<lparr>t_name = ''job'', t_logger = Some ''app'', t_total = None, t_progress_bar = None,
         t_start = Some 1000, t_end = None, t_elapsed = None\<rparr>, start_env)
   \<and> (case with_Timer (-) fmt_hundredths (Timer_init ''job'' None (Some ''app'')) quiet_block start_env of
        (r, t3, e3) \<Rightarrow> (r, t_elapsed t3, info_calls e3, stdout e3))
      = (Inr (), Some 150, [(''app'', ''job took 1.50 seconds.'' @ [CHR 0x0A])], [])"
proof -
  let ?t1 = "\<lparr>t_name = ''job'', t_logger = Some ''app'', t_total = None,
              t_progress_bar = None, t_start = Some (1000 :: int), t_end = None,
              t_elapsed = None\<rparr>"
  have en: "Timer_enter (Timer_init ''job'' None (Some ''app'')) start_env = (?t1, start_env)"
    by (simp add: Timer_enter_def Timer_init_def start_env_def)
  have bd: "quiet_block ?t1 start_env = (Inr (), start_env\<lparr>now := now start_env + 150\<rparr>)"
    by (simp add: quiet_block_def)
  show ?thesis
    using en timer_report_text
                [where body = quiet_block and fsub = "(-)" and fmt = fmt_hundredths, OF en bd]
    by (auto simp add: Timer_init_def start_env_def fmt_hundredths_def)
qed

text \<open>
  C7 as stated fails: what reaches the standard output is the report line and an empty
  line.
\<close>

theorem timer_print_counterexample:
  "(case with_Timer (-) fmt_hundredths (Timer_init ''job'' None None) quiet_block start_env of
      (r, t3, e3) \<Rightarrow> stdout e3)
   = ''job took 1.50 seconds.'' @ [CHR 0x0A, CHR 0x0A]"
  by (simp add: with_Timer_def Timer_enter_def Timer_init_def Timer_exit_def quiet_block_def
      start_env_def print_def report_def fmt_hundredths_def Let_def)

end
